theory Spec2Isabelle
  imports Main "HOL-Library.Sublist"
begin

section \<open>Strings and the pattern engine\<close>

text \<open>
  A TypeScript string is modelled as a \<open>string\<close>: one \<open>char\<close> stands for one code unit.
  The code of \<open>indentationLineProcessor.ts\<close> compares code units for equality only, and
  the characters it singles out are ASCII.
\<close>

text \<open>
  The character class \<^verbatim>\<open>[.*+?^${}()|[\]\\]\<close> that \<open>escapeCharacterForRegex\<close> looks for,
  its members in the order the source lists them; the last one is the backslash.
\<close>

definition escapeClass :: "char list" where
  "escapeClass = ''.*+?^${}()|[]'' @ [CHR 0x5C]"

text \<open>
  \<open>character.replace(/[.*+?^${}()|[\]\\]/g, '\\$&')\<close> on one character: a member of
  the class is replaced by a backslash and itself, any other character is returned as it
  is.
\<close>

definition escapeCharacterForRegex :: "char \<Rightarrow> string" where
  "escapeCharacterForRegex character =
     (if character \<in> set escapeClass then [CHR 0x5C, character] else [character])"

text \<open>The loop \<open>for (const chr of text) res += escapeCharacterForRegex(chr)\<close>, \<open>res\<close> starting empty.\<close>

definition escapeStringForRegex :: "string \<Rightarrow> string" where
  "escapeStringForRegex text = fold (\<lambda>chr res. res @ escapeCharacterForRegex chr) text []"

text \<open>
  The pattern engine is the language's own (\<open>new RegExp(source, 'g')\<close> and
  \<open>String.prototype.replace\<close>), and what is special to it is fixed by the language, not by
  this file: the production \<open>SyntaxCharacter\<close> of ECMAScript's pattern grammar, one of
  \<^verbatim>\<open>^ $ \ . * + ? ( ) [ ] { } |\<close>, in the order of the standard.
\<close>

definition SyntaxCharacter :: "char list" where
  "SyntaxCharacter = ''^$'' @ [CHR 0x5C] @ ''.*+?()[]{}|''"

text \<open>
  The engine is modelled on the fragment of patterns that are a sequence of one-character
  atoms: a character that is no \<open>SyntaxCharacter\<close> stands for itself, a backslash followed
  by a \<open>SyntaxCharacter\<close> stands for that character, and an unescaped dot stands for any
  character but a line terminator. Every other pattern (quantifiers, groups, classes,
  anchors, alternatives, class escapes, a dangling backslash) is outside the fragment
  and yields \<open>None\<close>.
\<close>

datatype atom = Lit char | AnyChar

type_synonym RegExp = "atom list"

fun RegExp :: "string \<Rightarrow> RegExp option" where
  "RegExp [] = Some []"
| "RegExp (c # cs) =
     (if c = CHR 0x5C then
        (case cs of
           [] \<Rightarrow> None
         | d # ds \<Rightarrow>
             if d \<in> set SyntaxCharacter then map_option (Cons (Lit d)) (RegExp ds) else None)
      else if c = CHR ''.'' then map_option (Cons AnyChar) (RegExp cs)
      else if c \<in> set SyntaxCharacter then None
      else map_option (Cons (Lit c)) (RegExp cs))"

fun atomMatches :: "atom \<Rightarrow> char \<Rightarrow> bool" where
  "atomMatches (Lit c) d = (c = d)"
| "atomMatches AnyChar d = (d \<noteq> CHR 0x0A \<and> d \<noteq> CHR 0x0D)"

text \<open>Does the pattern match at the start of the text?\<close>

fun matchesAt :: "RegExp \<Rightarrow> string \<Rightarrow> bool" where
  "matchesAt [] s = True"
| "matchesAt (a # as) [] = False"
| "matchesAt (a # as) (d # ds) = (atomMatches a d \<and> matchesAt as ds)"

text \<open>
  \<open>text.replace(regex, '')\<close> with the global flag: the text is scanned from the left; where
  the pattern matches, the matched characters are dropped and the scan goes on behind
  them; where it does not, the character is kept. An empty match drops nothing and the
  scan moves one character on.
\<close>

function replace :: "string \<Rightarrow> RegExp \<Rightarrow> string" where
  "replace [] regex = []"
| "replace (c # cs) regex =
     (if regex \<noteq> [] \<and> matchesAt regex (c # cs) then replace (drop (length regex) (c # cs)) regex
      else c # replace cs regex)"
  by pat_completeness auto
termination
  by (relation "measure (\<lambda>(s, regex). length s)") (auto simp: neq_Nil_conv)

section \<open>Tokens and language configuration\<close>

type_synonym LanguageId = string

text \<open>\<open>StandardTokenType\<close> of \<open>encodedTokenAttributes\<close>.\<close>

datatype StandardTokenType = Other | Comment | String | RegEx

text \<open>
  The interface \<open>IViewLineTokens\<close>, as far as the line processor calls it. Its
  implementations are not part of the file; a token stream is given by what its
  methods answer. \<open>forEach\<close> calls back with the indices \<open>0, ..., getCount - 1\<close> in order.
\<close>

record IViewLineTokens =
  getCount :: nat
  getLanguageId :: "nat \<Rightarrow> LanguageId"
  getStandardTokenType :: "nat \<Rightarrow> StandardTokenType"
  getTokenText :: "nat \<Rightarrow> string"
  getLineContent :: string

type_synonym LineTokens = IViewLineTokens

text \<open>One bracket pair of \<open>RichEditBrackets\<close>: alternative spellings of its two sides.\<close>

record RichEditBracket =
  "open" :: "string list"
  close :: "string list"

record RichEditBrackets =
  brackets :: "RichEditBracket list"

text \<open>
  \<open>languageConfigurationService.getLanguageConfiguration(languageId).brackets\<close>:
  the bracket set of a language, \<open>None\<close> where the language has none.
\<close>

type_synonym ILanguageConfigurationService = "LanguageId \<Rightarrow> RichEditBrackets option"

section \<open>IndentationLineProcessor.getProcessedLineForTokens\<close>

definition isTokenTypeToProcess :: "StandardTokenType \<Rightarrow> bool" where
  "isTokenTypeToProcess tokenType =
     (tokenType = String \<or> tokenType = RegEx \<or> tokenType = Comment)"

text \<open>
  The body of both \<open>forEach\<close> callbacks of \<open>removeBracketsFromText\<close>:
  \<open>regex = new RegExp(escapeStringForRegex(bracket), 'g')\<close>, then
  \<open>processedLine = processedLine.replace(regex, '')\<close>.
\<close>

definition removeBracket :: "string \<Rightarrow> string \<Rightarrow> string option" where
  "removeBracket bracket processedLine =
     (case RegExp (escapeStringForRegex bracket) of
        None \<Rightarrow> None
      | Some regex \<Rightarrow> Some (replace processedLine regex))"

fun forEachBracket :: "string list \<Rightarrow> string \<Rightarrow> string option" where
  "forEachBracket [] processedLine = Some processedLine"
| "forEachBracket (bracket # rest) processedLine =
     (case removeBracket bracket processedLine of
        None \<Rightarrow> None
      | Some processedLine' \<Rightarrow> forEachBracket rest processedLine')"

definition removeBracketsFromText :: "string list \<Rightarrow> string list \<Rightarrow> string \<Rightarrow> string option" where
  "removeBracketsFromText openBrackets closedBrackets line =
     (case forEachBracket openBrackets line of
        None \<Rightarrow> None
      | Some processedLine \<Rightarrow> forEachBracket closedBrackets processedLine)"

text \<open>The callback of \<open>tokens.forEach\<close>, run over the token indices with \<open>processedLine\<close> threaded.\<close>

fun forEachToken ::
  "string list \<Rightarrow> string list \<Rightarrow> IViewLineTokens \<Rightarrow> nat list \<Rightarrow> string \<Rightarrow> string option" where
  "forEachToken openBrackets closedBrackets tokens [] processedLine = Some processedLine"
| "forEachToken openBrackets closedBrackets tokens (tokenIndex # rest) processedLine =
     (let tokenType = getStandardTokenType tokens tokenIndex; text = getTokenText tokens tokenIndex
      in if isTokenTypeToProcess tokenType then
           (case removeBracketsFromText openBrackets closedBrackets text of
              None \<Rightarrow> None
            | Some removed \<Rightarrow>
                forEachToken openBrackets closedBrackets tokens rest (processedLine @ removed))
         else forEachToken openBrackets closedBrackets tokens rest (processedLine @ text))"

definition getProcessedLineForTokens ::
  "ILanguageConfigurationService \<Rightarrow> IViewLineTokens \<Rightarrow> string option" where
  "getProcessedLineForTokens languageConfigurationService tokens =
     (let languageId = getLanguageId tokens 0 in
      case languageConfigurationService languageId of
        None \<Rightarrow> Some (getLineContent tokens)
      | Some bs \<Rightarrow>
          (let openBrackets = concat (map open (brackets bs));
               closedBrackets = concat (map close (brackets bs))
           in forEachToken openBrackets closedBrackets tokens [0..<getCount tokens] []))"

section \<open>The text model and the imported functions\<close>

text \<open>
  \<open>ITextModel\<close>, as far as the file calls it. \<open>tokenization.forceTokenization\<close> changes the
  tokenization state \<open>'s\<close> of the model, \<open>tokenization.getLineTokens\<close> reads it, and
  \<open>getLineMaxColumn\<close> reads the text. Line numbers, columns and offsets are the
  language's numbers, modelled as \<open>int\<close>.
\<close>

record 's ITextModel =
  forceTokenization :: "'s \<Rightarrow> int \<Rightarrow> 's"
  getLineTokens :: "'s \<Rightarrow> int \<Rightarrow> LineTokens"
  getLineMaxColumn :: "int \<Rightarrow> int"

text \<open>
  \<open>IVirtualModel\<close>, the model of the line processor: only \<open>tokenization.getLineTokens\<close> is
  called on it.
\<close>

type_synonym IVirtualModel = "int \<Rightarrow> LineTokens"

text \<open>
  \<open>ScopedLineTokens\<close> of \<open>supports\<close>: the fields and methods the file reads
  (\<open>scopedLineContent\<close> is the answer of its \<open>getLineContent()\<close>).
\<close>

record ScopedLineTokens =
  languageId :: LanguageId
  firstCharOffset :: int
  scopedLineContent :: string
  doesScopeStartAtOffsetZero :: bool

text \<open>
  The functions the file imported and whose code is elsewhere:
  \<open>createScopedLineTokens\<close> of \<open>supports\<close>, the method \<open>sliceAndInflate\<close> of \<open>LineTokens\<close>
  and \<open>strings.getLeadingWhitespace\<close>. They are parameters of the model.
\<close>

record ImportedFunctions =
  createScopedLineTokens :: "LineTokens \<Rightarrow> int \<Rightarrow> ScopedLineTokens"
  sliceAndInflate :: "LineTokens \<Rightarrow> int \<Rightarrow> int \<Rightarrow> int \<Rightarrow> IViewLineTokens"
  getLeadingWhitespace :: "string \<Rightarrow> string"

record Range =
  startLineNumber :: int
  startColumn :: int
  endLineNumber :: int
  endColumn :: int

text \<open>
  Modelled from the spec: \<open>Range.isEmpty\<close> is not in the file; a range is collapsed when its
  start equals its end.
\<close>

definition isEmpty :: "Range \<Rightarrow> bool" where
  "isEmpty rng =
     (startLineNumber rng = endLineNumber rng \<and> startColumn rng = endColumn rng)"

section \<open>IndentationLineProcessor.getProcessedLine\<close>

text \<open>\<open>line.substring(currentIndentation.length)\<close> is \<open>drop\<close>: both give the empty string past the end.\<close>

definition adjustIndentation :: "ImportedFunctions \<Rightarrow> string \<Rightarrow> string \<Rightarrow> string" where
  "adjustIndentation imported line newIndentation =
     (let currentIndentation = getLeadingWhitespace imported line
      in newIndentation @ drop (length currentIndentation) line)"

text \<open>The optional parameter \<open>newIndentation\<close> is \<open>None\<close> when it is \<open>undefined\<close>.\<close>

definition getProcessedLine ::
  "ImportedFunctions \<Rightarrow> ILanguageConfigurationService \<Rightarrow> IVirtualModel \<Rightarrow> int \<Rightarrow> string option
     \<Rightarrow> string option" where
  "getProcessedLine imported languageConfigurationService model lineNumber newIndentation =
     (let tokens = model lineNumber in
      case getProcessedLineForTokens languageConfigurationService tokens of
        None \<Rightarrow> None
      | Some processedLine \<Rightarrow>
          (case newIndentation of
             None \<Rightarrow> Some processedLine
           | Some indentation \<Rightarrow> Some (adjustIndentation imported processedLine indentation)))"

section \<open>ProcessedIndentRulesSupport\<close>

text \<open>\<open>IndentRulesSupport\<close>, the rule evaluator: four predicates on a line.\<close>

record IndentRulesSupport =
  rulesShouldIncrease :: "string \<Rightarrow> bool"
  rulesShouldDecrease :: "string \<Rightarrow> bool"
  rulesShouldIgnore :: "string \<Rightarrow> bool"
  rulesShouldIndentNextLine :: "string \<Rightarrow> bool"

definition shouldIncrease ::
  "ImportedFunctions \<Rightarrow> ILanguageConfigurationService \<Rightarrow> IVirtualModel \<Rightarrow> IndentRulesSupport
     \<Rightarrow> int \<Rightarrow> string option \<Rightarrow> bool option" where
  "shouldIncrease imported languageConfigurationService model indentRulesSupport lineNumber
       newIndentation =
     (case getProcessedLine imported languageConfigurationService model lineNumber newIndentation of
        None \<Rightarrow> None
      | Some processedLine \<Rightarrow> Some (rulesShouldIncrease indentRulesSupport processedLine))"

definition shouldDecrease ::
  "ImportedFunctions \<Rightarrow> ILanguageConfigurationService \<Rightarrow> IVirtualModel \<Rightarrow> IndentRulesSupport
     \<Rightarrow> int \<Rightarrow> string option \<Rightarrow> bool option" where
  "shouldDecrease imported languageConfigurationService model indentRulesSupport lineNumber
       newIndentation =
     (case getProcessedLine imported languageConfigurationService model lineNumber newIndentation of
        None \<Rightarrow> None
      | Some processedLine \<Rightarrow> Some (rulesShouldDecrease indentRulesSupport processedLine))"

definition shouldIgnore ::
  "ImportedFunctions \<Rightarrow> ILanguageConfigurationService \<Rightarrow> IVirtualModel \<Rightarrow> IndentRulesSupport
     \<Rightarrow> int \<Rightarrow> string option \<Rightarrow> bool option" where
  "shouldIgnore imported languageConfigurationService model indentRulesSupport lineNumber
       newIndentation =
     (case getProcessedLine imported languageConfigurationService model lineNumber newIndentation of
        None \<Rightarrow> None
      | Some processedLine \<Rightarrow> Some (rulesShouldIgnore indentRulesSupport processedLine))"

definition shouldIndentNextLine ::
  "ImportedFunctions \<Rightarrow> ILanguageConfigurationService \<Rightarrow> IVirtualModel \<Rightarrow> IndentRulesSupport
     \<Rightarrow> int \<Rightarrow> string option \<Rightarrow> bool option" where
  "shouldIndentNextLine imported languageConfigurationService model indentRulesSupport lineNumber
       newIndentation =
     (case getProcessedLine imported languageConfigurationService model lineNumber newIndentation of
        None \<Rightarrow> None
      | Some processedLine \<Rightarrow> Some (rulesShouldIndentNextLine indentRulesSupport processedLine))"

section \<open>IndentationContextProcessor\<close>

definition getProcessedTextBeforeRange ::
  "ImportedFunctions \<Rightarrow> ILanguageConfigurationService \<Rightarrow> 's ITextModel \<Rightarrow> 's \<Rightarrow> Range
     \<Rightarrow> ScopedLineTokens \<Rightarrow> string option" where
  "getProcessedTextBeforeRange imported languageConfigurationService model s rng scopedLineTokens =
     (let lineTokens = getLineTokens model s (startLineNumber rng);
          columnIndexWithinScope = (startColumn rng - 1) - firstCharOffset scopedLineTokens;
          firstCharacterOffset = firstCharOffset scopedLineTokens;
          lastCharacterOffset = firstCharOffset scopedLineTokens + columnIndexWithinScope;
          slicedTokensBefore =
            sliceAndInflate imported lineTokens firstCharacterOffset lastCharacterOffset 0
      in getProcessedLineForTokens languageConfigurationService slicedTokensBefore)"

definition getProcessedTextAfterRange ::
  "ImportedFunctions \<Rightarrow> ILanguageConfigurationService \<Rightarrow> 's ITextModel \<Rightarrow> 's \<Rightarrow> Range
     \<Rightarrow> ScopedLineTokens \<Rightarrow> string option" where
  "getProcessedTextAfterRange imported languageConfigurationService model s rng scopedLineTokens =
     (let (columnIndexWithinScope, lineTokens) =
            (if isEmpty rng then
               ((startColumn rng - 1) - firstCharOffset scopedLineTokens,
                getLineTokens model s (startLineNumber rng))
             else
               ((endColumn rng - 1) - firstCharOffset scopedLineTokens,
                getLineTokens model s (endLineNumber rng)));
          scopedLineContent = scopedLineContent scopedLineTokens;
          firstCharacterOffset = firstCharOffset scopedLineTokens + columnIndexWithinScope;
          lastCharacterOffset = firstCharOffset scopedLineTokens + int (length scopedLineContent);
          slicedTokensAfter =
            sliceAndInflate imported lineTokens firstCharacterOffset lastCharacterOffset 0
      in getProcessedLineForTokens languageConfigurationService slicedTokensAfter)"

text \<open>The two utility functions of \<open>_getProcessedPreviousLine\<close>; the first one changes the state.\<close>

definition getScopedLineTokensAtEndColumnOfLine ::
  "ImportedFunctions \<Rightarrow> 's ITextModel \<Rightarrow> 's \<Rightarrow> int \<Rightarrow> ScopedLineTokens \<times> 's" where
  "getScopedLineTokensAtEndColumnOfLine imported model s lineNumber =
     (let s' = forceTokenization model s lineNumber;
          lineTokens = getLineTokens model s' lineNumber;
          endColumnOfLine = getLineMaxColumn model lineNumber - 1;
          scopedLineTokensAtEndColumn = createScopedLineTokens imported lineTokens endColumnOfLine
      in (scopedLineTokensAtEndColumn, s'))"

definition getSlicedLineTokensForScopeAtLine ::
  "ImportedFunctions \<Rightarrow> 's ITextModel \<Rightarrow> 's \<Rightarrow> ScopedLineTokens \<Rightarrow> int \<Rightarrow> IViewLineTokens" where
  "getSlicedLineTokensForScopeAtLine imported model s scopedLineTokens lineNumber =
     (let initialLine = getLineTokens model s lineNumber;
          scopedLine = scopedLineContent scopedLineTokens;
          firstCharacterOffset = firstCharOffset scopedLineTokens;
          lastCharacterOffset = firstCharacterOffset + int (length scopedLine);
          slicedLineTokens =
            sliceAndInflate imported initialLine firstCharacterOffset lastCharacterOffset 0
      in slicedLineTokens)"

definition getProcessedPreviousLine ::
  "ImportedFunctions \<Rightarrow> ILanguageConfigurationService \<Rightarrow> 's ITextModel \<Rightarrow> 's \<Rightarrow> Range
     \<Rightarrow> ScopedLineTokens \<Rightarrow> string option \<times> 's" where
  "getProcessedPreviousLine imported languageConfigurationService model s rng scopedLineTokens =
     (let previousLineNumber = startLineNumber rng - 1;
          isFirstLine = (previousLineNumber = 0)
      in if isFirstLine then (Some [], s)
         else
           (let canScopeExtendOnPreviousLine = doesScopeStartAtOffsetZero scopedLineTokens
            in if \<not> canScopeExtendOnPreviousLine then (Some [], s)
               else
                 (let (scopedLineTokensAtEndColumnOfPreviousLine, s') =
                        getScopedLineTokensAtEndColumnOfLine imported model s previousLineNumber;
                      doesLanguageContinueOnPreviousLine =
                        (languageId scopedLineTokens =
                           languageId scopedLineTokensAtEndColumnOfPreviousLine)
                  in if \<not> doesLanguageContinueOnPreviousLine then (Some [], s')
                     else
                       (let previousSlicedLineTokens =
                              getSlicedLineTokensForScopeAtLine imported model s'
                                scopedLineTokensAtEndColumnOfPreviousLine previousLineNumber
                        in (getProcessedLineForTokens languageConfigurationService
                              previousSlicedLineTokens, s')))))"

record ProcessedContext =
  beforeRangeText :: string
  afterRangeText :: string
  previousLineText :: string

definition getProcessedContextAroundRange ::
  "ImportedFunctions \<Rightarrow> ILanguageConfigurationService \<Rightarrow> 's ITextModel \<Rightarrow> 's \<Rightarrow> Range
     \<Rightarrow> ProcessedContext option \<times> 's" where
  "getProcessedContextAroundRange imported languageConfigurationService model s rng =
     (let s1 = forceTokenization model s (startLineNumber rng);
          lineTokens = getLineTokens model s1 (startLineNumber rng);
          scopedLineTokens = createScopedLineTokens imported lineTokens (startColumn rng - 1)
      in case getProcessedTextBeforeRange imported languageConfigurationService model s1 rng
                scopedLineTokens of
           None \<Rightarrow> (None, s1)
         | Some before \<Rightarrow>
             (case getProcessedTextAfterRange imported languageConfigurationService model s1 rng
                     scopedLineTokens of
                None \<Rightarrow> (None, s1)
              | Some after \<Rightarrow>
                  (case getProcessedPreviousLine imported languageConfigurationService model s1 rng
                          scopedLineTokens of
                     (None, s2) \<Rightarrow> (None, s2)
                   | (Some previous, s2) \<Rightarrow>
                       (Some \<lparr>beforeRangeText = before, afterRangeText = after,
                               previousLineText = previous\<rparr>, s2))))"

section \<open>The removal of the specification\<close>

text \<open>
  The specification's removal of one bracket string from a text: every non-overlapping
  occurrence, found from the left and compared character for character, is taken out.
  The empty string has no occurrence to take out. No pattern is involved.
\<close>

function removeOccurrences :: "string \<Rightarrow> string \<Rightarrow> string" where
  "removeOccurrences bracket [] = []"
| "removeOccurrences bracket (c # cs) =
     (if bracket \<noteq> [] \<and> take (length bracket) (c # cs) = bracket
      then removeOccurrences bracket (drop (length bracket) (c # cs))
      else c # removeOccurrences bracket cs)"
  by pat_completeness auto
termination
  by (relation "measure (\<lambda>(b, s). length s)") (auto simp: neq_Nil_conv)

text \<open>
  The invariant of a token stream in the data model: the tokens are contiguous and cover
  the line, so the line's content is the texts of its tokens one after the other.
\<close>

definition tokensCoverLine :: "IViewLineTokens \<Rightarrow> bool" where
  "tokensCoverLine tokens =
     (getLineContent tokens = concat (map (getTokenText tokens) [0..<getCount tokens]))"

text \<open>
  Modelled from the spec: the Token Stream of the data model, an ordered sequence of tokens
  that carry a language id, a classification and their text; the classes that implement
  \<open>IViewLineTokens\<close> are not in the file. Outside the sequence the answers are defaults.
\<close>

definition tokensOf :: "(LanguageId \<times> StandardTokenType \<times> string) list \<Rightarrow> IViewLineTokens" where
  "tokensOf ts =
     \<lparr>getCount = length ts,
      getLanguageId = (\<lambda>i. if i < length ts then fst (ts ! i) else []),
      getStandardTokenType = (\<lambda>i. if i < length ts then fst (snd (ts ! i)) else Other),
      getTokenText = (\<lambda>i. if i < length ts then snd (snd (ts ! i)) else []),
      getLineContent = concat (map (\<lambda>t. snd (snd t)) ts)\<rparr>"

section \<open>A small instance to run the functions on\<close>

text \<open>
  A language \<open>ts\<close> with two bracket pairs, the second one with two spellings of each side;
  all of them hold syntax characters of the pattern language. Every other language has no
  bracket configuration.
\<close>

definition exampleBrackets :: RichEditBrackets where
  "exampleBrackets =
     \<lparr>brackets = [\<lparr>open = [''(''], close = ['')'']\<rparr>, \<lparr>open = [''[|'', ''{''], close = [''|]'', ''}'']\<rparr>]\<rparr>"

definition exampleService :: ILanguageConfigurationService where
  "exampleService lang = (if lang = ''ts'' then Some exampleBrackets else None)"

text \<open>
  An instance of the imported functions for lines that are one token long: the scope found
  in a line is the whole line, and a slice keeps the characters between the two offsets.
  The leading whitespace is the run of blanks and tabs at the start.
\<close>

definition leadingSpacesAndTabs :: "string \<Rightarrow> string" where
  "leadingSpacesAndTabs str = takeWhile (\<lambda>c. c = CHR '' '' \<or> c = CHR 0x09) str"

definition sliceOneToken :: "LineTokens \<Rightarrow> int \<Rightarrow> int \<Rightarrow> int \<Rightarrow> IViewLineTokens" where
  "sliceOneToken lineTokens startOffset endOffset deltaOffset =
     tokensOf [(getLanguageId lineTokens 0, getStandardTokenType lineTokens 0,
                take (nat (endOffset - startOffset))
                  (drop (nat startOffset) (getLineContent lineTokens)))]"

definition scopeWholeLine :: "LineTokens \<Rightarrow> int \<Rightarrow> ScopedLineTokens" where
  "scopeWholeLine lineTokens offset =
     \<lparr>languageId = getLanguageId lineTokens 0, firstCharOffset = 0,
      scopedLineContent = getLineContent lineTokens, doesScopeStartAtOffsetZero = True\<rparr>"

definition exampleImports :: ImportedFunctions where
  "exampleImports =
     \<lparr>createScopedLineTokens = scopeWholeLine, sliceAndInflate = sliceOneToken,
      getLeadingWhitespace = leadingSpacesAndTabs\<rparr>"

text \<open>
  A document of four lines, and a model whose tokenization state is the list of the lines
  that were forced. Lines 1 and 2 are one comment each; lines 3 and 4 have a string token
  next to code and are read by the line processor only.
\<close>

definition exampleLines :: "int \<Rightarrow> LineTokens" where
  "exampleLines lineNumber =
     (if lineNumber = 1 then tokensOf [(''ts'', Comment, ''// see (x)'')]
      else if lineNumber = 2 then tokensOf [(''ts'', Comment, ''// a[0] {b}'')]
      else if lineNumber = 3 then tokensOf [(''ts'', String, ''(''), (''ts'', Other, ''  foo()'')]
      else if lineNumber = 4 then tokensOf [(''ts'', Other, ''x = ''), (''ts'', String, ''#{'')]
      else tokensOf [(''ts'', Other, [])])"

definition exampleModel :: "int list ITextModel" where
  "exampleModel =
     \<lparr>forceTokenization = (\<lambda>s lineNumber. lineNumber # s),
      getLineTokens = (\<lambda>s lineNumber. exampleLines lineNumber),
      getLineMaxColumn = (\<lambda>lineNumber. int (length (getLineContent (exampleLines lineNumber))) + 1)\<rparr>"

text \<open>A rule evaluator that asks for more indentation after a line ending in an open brace.\<close>

definition exampleRules :: IndentRulesSupport where
  "exampleRules =
     \<lparr>rulesShouldIncrease = (\<lambda>line. line \<noteq> [] \<and> last line = CHR ''{''),
      rulesShouldDecrease = (\<lambda>line. take 1 line = ''}''),
      rulesShouldIgnore = (\<lambda>line. line = []),
      rulesShouldIndentNextLine = (\<lambda>line. False)\<rparr>"

section \<open>The escaped pattern matches literally\<close>

lemma fold_escape: "fold (\<lambda>chr res. res @ escapeCharacterForRegex chr) text acc = acc @ concat (map escapeCharacterForRegex text)"
  by (induction "text" arbitrary: acc) auto

lemma escapeStringForRegex_concat: "escapeStringForRegex text = concat (map escapeCharacterForRegex text)"
  by (simp add: escapeStringForRegex_def fold_escape)

text \<open>
  The class the code escapes and the characters the engine treats as syntax are the same
  fourteen characters. Both inclusions are needed: a syntax character left unescaped
  would be read as syntax, and a backslash in front of any other character would not
  be an escape of the fragment.
\<close>

lemma escapeClass_SyntaxCharacter: "set escapeClass = set SyntaxCharacter"
  by (auto simp: escapeClass_def SyntaxCharacter_def)

lemma backslash_syntax: "CHR 0x5C \<in> set SyntaxCharacter"
  by (simp add: SyntaxCharacter_def)

lemma dot_syntax: "CHR ''.'' \<in> set SyntaxCharacter"
  by (simp add: SyntaxCharacter_def)

lemma escapeCharacterForRegex_syntax:
  "c \<in> set SyntaxCharacter \<Longrightarrow> escapeCharacterForRegex c = [CHR 0x5C, c]"
  by (simp add: escapeCharacterForRegex_def escapeClass_SyntaxCharacter)

lemma escapeCharacterForRegex_other:
  "c \<notin> set SyntaxCharacter \<Longrightarrow> escapeCharacterForRegex c = [c]"
  by (simp add: escapeCharacterForRegex_def escapeClass_SyntaxCharacter)

lemma RegExp_escaped_char:
  "RegExp (escapeCharacterForRegex c @ rest) = map_option (Cons (Lit c)) (RegExp rest)"
proof (cases "c \<in> set SyntaxCharacter")
  case True
  then show ?thesis by (simp add: escapeCharacterForRegex_syntax)
next
  case False
  with backslash_syntax dot_syntax have "c \<noteq> CHR 0x5C" and "c \<noteq> CHR ''.''" by auto
  with False show ?thesis by (simp add: escapeCharacterForRegex_other)
qed

lemma RegExp_escaped: "RegExp (escapeStringForRegex bracket) = Some (map Lit bracket)"
  unfolding escapeStringForRegex_concat
  by (induction bracket) (simp_all add: RegExp_escaped_char del: RegExp.simps(2))

lemma matchesAt_Lit: "matchesAt (map Lit bracket) s = (take (length bracket) s = bracket)"
proof (induction bracket arbitrary: s)
  case Nil
  then show ?case by simp
next
  case (Cons b bs)
  then show ?case by (cases s) auto
qed

lemma replace_Lit: "replace s (map Lit bracket) = removeOccurrences bracket s"
proof (induction bracket s rule: removeOccurrences.induct)
  case (1 bracket)
  then show ?case by simp
next
  case (2 bracket c cs)
  show ?case
  proof (cases "bracket \<noteq> [] \<and> take (length bracket) (c # cs) = bracket")
    case True
    with 2(1) show ?thesis by (simp add: matchesAt_Lit del: matchesAt.simps)
  next
    case False
    with 2(2) show ?thesis by (auto simp add: matchesAt_Lit simp del: matchesAt.simps)
  qed
qed

lemma removeBracket_removeOccurrences: "removeBracket bracket s = Some (removeOccurrences bracket s)"
  by (simp add: removeBracket_def RegExp_escaped replace_Lit)

text \<open>
  What the engine does with patterns that are not escaped: a dot matches every character
  of \<open>a.c\<close>, and a lone parenthesis, bracket, brace, star, plus, question mark, bar, caret,
  dollar or backslash is no pattern of the fragment.
\<close>

lemma unescaped_dot_is_not_literal:
  "RegExp ''.'' = Some [AnyChar] \<and> replace ''a.c'' [AnyChar] = [] \<and>
   removeBracket ''.'' ''a.c'' = Some ''ac''"
  by (simp add: removeBracket_removeOccurrences SyntaxCharacter_def)

lemma unescaped_syntax_is_rejected:
  "c \<in> set SyntaxCharacter \<Longrightarrow> c \<noteq> CHR ''.'' \<Longrightarrow> RegExp [c] = None"
  by (auto simp: SyntaxCharacter_def)

lemma forEachBracket_fold: "forEachBracket bs s = Some (fold removeOccurrences bs s)"
  by (induction bs arbitrary: s) (simp_all add: removeBracket_removeOccurrences)

lemma removeBracketsFromText_fold:
  "removeBracketsFromText ob cb s = Some (fold removeOccurrences cb (fold removeOccurrences ob s))"
  by (simp add: removeBracketsFromText_def forEachBracket_fold)

lemma removeOccurrences_absent:
  "bracket = [] \<or> \<not> sublist bracket s \<Longrightarrow> removeOccurrences bracket s = s"
proof (induction s)
  case Nil
  then show ?case by simp
next
  case (Cons c cs)
  have "bracket = [] \<or> take (length bracket) (c # cs) \<noteq> bracket"
  proof (rule ccontr)
    assume "\<not> (bracket = [] \<or> take (length bracket) (c # cs) \<noteq> bracket)"
    then have ne: "bracket \<noteq> []" and "take (length bracket) (c # cs) = bracket" by auto
    then have "prefix bracket (c # cs)" by (metis take_is_prefix)
    then have "sublist bracket (c # cs)" by (rule prefix_imp_sublist)
    with Cons.prems ne show False by simp
  qed
  moreover have "bracket = [] \<or> \<not> sublist bracket cs"
    using Cons.prems by (auto simp: sublist_Cons_right)
  ultimately show ?case using Cons.IH by auto
qed

lemma fold_removeOccurrences_absent:
  "\<forall>b \<in> set bs. b = [] \<or> \<not> sublist b s \<Longrightarrow> fold removeOccurrences bs s = s"
  by (induction bs) (simp_all add: removeOccurrences_absent)

section \<open>The sanitizer, token by token\<close>

lemma forEachToken_concat:
  "forEachToken ob cb tokens is acc =
     Some (acc @ concat (map (\<lambda>i. if isTokenTypeToProcess (getStandardTokenType tokens i)
                                 then fold removeOccurrences cb (fold removeOccurrences ob (getTokenText tokens i))
                                 else getTokenText tokens i) is))"
  by (induction "is" arbitrary: acc) (simp_all add: removeBracketsFromText_fold Let_def)

lemma isTokenTypeToProcess_set:
  "isTokenTypeToProcess t = (t \<in> {String, Comment, RegEx})"
  by (auto simp: isTokenTypeToProcess_def)

lemma getProcessedLineForTokens_None:
  "svc (getLanguageId tokens 0) = None \<Longrightarrow>
     getProcessedLineForTokens svc tokens = Some (getLineContent tokens)"
  by (simp add: getProcessedLineForTokens_def)

lemma getProcessedLineForTokens_Some:
  "svc (getLanguageId tokens 0) = Some bs \<Longrightarrow>
     getProcessedLineForTokens svc tokens =
       Some (concat (map (\<lambda>i. if isTokenTypeToProcess (getStandardTokenType tokens i)
                   then fold removeOccurrences (concat (map close (brackets bs)))
                          (fold removeOccurrences (concat (map open (brackets bs))) (getTokenText tokens i))
                   else getTokenText tokens i) [0..<getCount tokens]))"
  by (simp add: getProcessedLineForTokens_def forEachToken_concat)

lemma getProcessedLineForTokens_total:
  "\<exists>line. getProcessedLineForTokens svc tokens = Some line"
  by (cases "svc (getLanguageId tokens 0)")
     (simp_all add: getProcessedLineForTokens_None getProcessedLineForTokens_Some)

section \<open>The context around a range\<close>

lemma getProcessedTextAfterRange_slice:
  "getProcessedTextAfterRange imported svc model s rng scope =
     getProcessedLineForTokens svc
       (sliceAndInflate imported
          (getLineTokens model s (if isEmpty rng then startLineNumber rng else endLineNumber rng))
          ((if isEmpty rng then startColumn rng else endColumn rng) - 1)
          (firstCharOffset scope + int (length (scopedLineContent scope))) 0)"
  by (simp add: getProcessedTextAfterRange_def Let_def)

lemma getProcessedPreviousLine_result:
  "fst (getProcessedPreviousLine imported svc model s rng scope) =
     (if startLineNumber rng \<noteq> 1 \<and> doesScopeStartAtOffsetZero scope \<and>
         languageId
           (createScopedLineTokens imported
              (getLineTokens model (forceTokenization model s (startLineNumber rng - 1))
                 (startLineNumber rng - 1))
              (getLineMaxColumn model (startLineNumber rng - 1) - 1)) = languageId scope
      then getProcessedLineForTokens svc
             (sliceAndInflate imported
                (getLineTokens model (forceTokenization model s (startLineNumber rng - 1))
                   (startLineNumber rng - 1))
                (firstCharOffset
                   (createScopedLineTokens imported
                      (getLineTokens model (forceTokenization model s (startLineNumber rng - 1))
                         (startLineNumber rng - 1))
                      (getLineMaxColumn model (startLineNumber rng - 1) - 1)))
                (firstCharOffset
                   (createScopedLineTokens imported
                      (getLineTokens model (forceTokenization model s (startLineNumber rng - 1))
                         (startLineNumber rng - 1))
                      (getLineMaxColumn model (startLineNumber rng - 1) - 1))
                 + int (length (scopedLineContent
                   (createScopedLineTokens imported
                      (getLineTokens model (forceTokenization model s (startLineNumber rng - 1))
                         (startLineNumber rng - 1))
                      (getLineMaxColumn model (startLineNumber rng - 1) - 1))))) 0)
      else Some [])"
  by (auto simp add: getProcessedPreviousLine_def getScopedLineTokensAtEndColumnOfLine_def
        getSlicedLineTokensForScopeAtLine_def Let_def)

lemma getProcessedPreviousLine_total:
  "\<exists>previous. fst (getProcessedPreviousLine imported svc model s rng scope) = Some previous"
  unfolding getProcessedPreviousLine_result
  using getProcessedLineForTokens_total by simp

lemma getProcessedContextAroundRange_fields:
  assumes "s1 = forceTokenization model s (startLineNumber rng)"
    and "scope = createScopedLineTokens imported (getLineTokens model s1 (startLineNumber rng))
                   (startColumn rng - 1)"
  shows "\<exists>ctx. fst (getProcessedContextAroundRange imported svc model s rng) = Some ctx \<and>
           getProcessedTextBeforeRange imported svc model s1 rng scope = Some (beforeRangeText ctx) \<and>
           getProcessedTextAfterRange imported svc model s1 rng scope = Some (afterRangeText ctx) \<and>
           fst (getProcessedPreviousLine imported svc model s1 rng scope) =
             Some (previousLineText ctx)"
proof -
  obtain before where b: "getProcessedTextBeforeRange imported svc model s1 rng scope = Some before"
    unfolding getProcessedTextBeforeRange_def Let_def
    using getProcessedLineForTokens_total by blast
  obtain after where a: "getProcessedTextAfterRange imported svc model s1 rng scope = Some after"
    unfolding getProcessedTextAfterRange_slice
    using getProcessedLineForTokens_total by blast
  obtain previous where
    p: "fst (getProcessedPreviousLine imported svc model s1 rng scope) = Some previous"
    using getProcessedPreviousLine_total [of imported svc model s1 rng scope] by blast
  then obtain s2 where
    "getProcessedPreviousLine imported svc model s1 rng scope = (Some previous, s2)"
    by (cases "getProcessedPreviousLine imported svc model s1 rng scope") simp
  with b a p assms show ?thesis
    by (simp add: getProcessedContextAroundRange_def Let_def)
qed

section \<open>The claims\<close>

text \<open>
  C1. When the language of the first token has a bracket set, the processed line is the
  texts of the tokens in their order, where a token classified String, Comment or RegEx
  has the occurrences of every open and then every close bracket string removed, and a
  token of any other classification keeps its text.
\<close>

theorem sanitize_configured_language:
  assumes "svc (getLanguageId tokens 0) = Some bs"
  shows "getProcessedLineForTokens svc tokens =
     Some (concat (map (\<lambda>i. if getStandardTokenType tokens i \<in> {String, Comment, RegEx}
                   then fold removeOccurrences
                          (concat (map open (brackets bs)) @ concat (map close (brackets bs)))
                          (getTokenText tokens i)
                   else getTokenText tokens i) [0..<getCount tokens]))"
  using assms by (simp add: getProcessedLineForTokens_Some isTokenTypeToProcess_set cong: if_cong)

theorem sanitize_configured_language_witness:
  "exampleService (getLanguageId (tokensOf [(''ts'', Other, ''f(''), (''ts'', String, ''#(x[|#''), (''ts'', Other, '')'')]) 0) = Some exampleBrackets \<and>
   getProcessedLineForTokens exampleService (tokensOf [(''ts'', Other, ''f(''), (''ts'', String, ''#(x[|#''), (''ts'', Other, '')'')]) = Some ''f(#x#)''"
  using sanitize_configured_language [of exampleService "tokensOf [(''ts'', Other, ''f(''), (''ts'', String, ''#(x[|#''), (''ts'', Other, '')'')]" exampleBrackets]
  by (simp add: exampleService_def tokensOf_def exampleBrackets_def upt_rec)

text \<open>
  C4. When the language of the first token has no bracket configuration, the processed line
  is the line content of the token stream, whatever the classifications of its tokens.
\<close>

theorem sanitize_unconfigured_language:
  assumes "svc (getLanguageId tokens 0) = None"
  shows "getProcessedLineForTokens svc tokens = Some (getLineContent tokens)"
  using assms by (simp add: getProcessedLineForTokens_def)

theorem sanitize_unconfigured_language_witness:
  "exampleService (getLanguageId (tokensOf [(''txt'', String, ''#(x#''), (''txt'', Comment, ''// }'')]) 0) = None \<and>
   getProcessedLineForTokens exampleService (tokensOf [(''txt'', String, ''#(x#''), (''txt'', Comment, ''// }'')])
     = Some ''#(x#// }''"
  using sanitize_unconfigured_language [of exampleService "tokensOf [(''txt'', String, ''#(x#''), (''txt'', Comment, ''// }'')]"]
  by (simp add: exampleService_def tokensOf_def)

text \<open>
  C5. The brackets are removed one after the other from one string: each open bracket string
  from the result of the removal before it, and every open bracket string before any close
  bracket string. In the instance below the removal of \<open>b\<close> from \<open>abc\<close> brings \<open>ac\<close> together,
  and the later removal of \<open>ac\<close> takes it out, although \<open>abc\<close> itself has no \<open>ac\<close>.
\<close>

theorem removeBracketsFromText_progressive:
  "removeBracketsFromText openBrackets closedBrackets line =
     Some (fold removeOccurrences closedBrackets (fold removeOccurrences openBrackets line))"
  by (simp add: removeBracketsFromText_fold)

theorem removeBracketsFromText_progressive_witness:
  "removeBracketsFromText [''b''] [''ac''] ''abc'' = Some [] \<and>
   removeOccurrences ''ac'' ''abc'' = ''abc''"
  using removeBracketsFromText_progressive [of "[''b'']" "[''ac'']" "''abc''"] by simp

text \<open>
  C6. For every bracket string, whatever syntax characters of the pattern language it holds,
  the pattern built from its escaped form is the sequence of its own characters as
  literals, and the replacement removes the occurrences of the bracket string compared
  character for character.
\<close>

theorem removeBracket_matches_literally:
  "RegExp (escapeStringForRegex bracket) = Some (map Lit bracket) \<and>
   removeBracket bracket line = Some (removeOccurrences bracket line)"
  by (simp add: RegExp_escaped removeBracket_removeOccurrences)

theorem removeBracket_matches_literally_witness:
  "removeBracket (''.*+?^${}()|[]'' @ [CHR 0x5C])
     (''a.*+?^${}()|[]'' @ [CHR 0x5C] @ ''b.*+c'' @ [CHR 0x5C] @ ''(d)'') =
   Some (''ab.*+c'' @ [CHR 0x5C] @ ''(d)'')"
  using removeBracket_matches_literally
          [of "''.*+?^${}()|[]'' @ [CHR 0x5C]"
              "''a.*+?^${}()|[]'' @ [CHR 0x5C] @ ''b.*+c'' @ [CHR 0x5C] @ ''(d)''"]
  by simp

text \<open>
  C9. When the tokens cover the line, and no token classified String, Comment or RegEx has
  in its text an occurrence of a bracket string configured for the language of the first
  token, the processed line is the line content, which is the texts of the tokens one
  after the other.
\<close>

theorem sanitize_without_brackets_is_identity:
  assumes cover: "tokensCoverLine tokens"
    and absent: "\<forall>bs. svc (getLanguageId tokens 0) = Some bs \<longrightarrow>
       (\<forall>i < getCount tokens. getStandardTokenType tokens i \<in> {String, Comment, RegEx} \<longrightarrow>
          (\<forall>bracket \<in> set (concat (map open (brackets bs)) @ concat (map close (brackets bs))).
             \<not> sublist bracket (getTokenText tokens i)))"
  shows "getProcessedLineForTokens svc tokens = Some (getLineContent tokens) \<and>
         getLineContent tokens = concat (map (getTokenText tokens) [0..<getCount tokens])"
proof (cases "svc (getLanguageId tokens 0)")
  case None
  with cover show ?thesis
    by (simp add: getProcessedLineForTokens_None tokensCoverLine_def)
next
  case (Some bs)
  let ?all = "concat (map open (brackets bs)) @ concat (map close (brackets bs))"
  have same: "(if isTokenTypeToProcess (getStandardTokenType tokens i)
               then fold removeOccurrences (concat (map close (brackets bs)))
                      (fold removeOccurrences (concat (map open (brackets bs))) (getTokenText tokens i))
               else getTokenText tokens i) = getTokenText tokens i"
    if "i \<in> set [0..<getCount tokens]" for i
  proof (cases "isTokenTypeToProcess (getStandardTokenType tokens i)")
    case True
    from that have "i < getCount tokens" by simp
    moreover from True have "getStandardTokenType tokens i \<in> {String, Comment, RegEx}"
      by (simp only: isTokenTypeToProcess_set)
    ultimately have "\<forall>bracket \<in> set ?all. \<not> sublist bracket (getTokenText tokens i)"
      using absent Some by blast
    then have "\<forall>bracket \<in> set ?all. bracket = [] \<or> \<not> sublist bracket (getTokenText tokens i)"
      by blast
    then have "fold removeOccurrences ?all (getTokenText tokens i) = getTokenText tokens i"
      by (rule fold_removeOccurrences_absent)
    with True show ?thesis by simp
  next
    case False
    then show ?thesis by simp
  qed
  have "map (\<lambda>i. if isTokenTypeToProcess (getStandardTokenType tokens i)
               then fold removeOccurrences (concat (map close (brackets bs)))
                      (fold removeOccurrences (concat (map open (brackets bs))) (getTokenText tokens i))
               else getTokenText tokens i) [0..<getCount tokens] =
        map (getTokenText tokens) [0..<getCount tokens]"
    by (rule map_cong [OF refl]) (rule same)
  then have "getProcessedLineForTokens svc tokens =
          Some (concat (map (getTokenText tokens) [0..<getCount tokens]))"
    by (simp only: getProcessedLineForTokens_Some [of svc tokens bs, OF Some])
  with cover show ?thesis by (simp add: tokensCoverLine_def)
qed

theorem sanitize_without_brackets_is_identity_witness:
  "getProcessedLineForTokens exampleService
     (tokensOf [(''ts'', Other, ''f(x)''), (''ts'', String, ''#abc#'')]) = Some ''f(x)#abc#''"
proof -
  let ?tokens = "tokensOf [(''ts'', Other, ''f(x)''), (''ts'', String, ''#abc#'')]"
  have cover: "tokensCoverLine ?tokens"
    by (simp add: tokensCoverLine_def tokensOf_def upt_rec)
  have absent: "\<forall>bs. exampleService (getLanguageId ?tokens 0) = Some bs \<longrightarrow>
       (\<forall>i < getCount ?tokens. getStandardTokenType ?tokens i \<in> {String, Comment, RegEx} \<longrightarrow>
          (\<forall>bracket \<in> set (concat (map open (brackets bs)) @ concat (map close (brackets bs))).
             \<not> sublist bracket (getTokenText ?tokens i)))"
    by (simp add: exampleService_def exampleBrackets_def tokensOf_def less_Suc_eq sublist_code)
  from sanitize_without_brackets_is_identity [of ?tokens exampleService, OF cover absent] show ?thesis
    by (simp add: tokensOf_def)
qed

text \<open>
  C10. The bracket set is the one of the language of the token at index 0, and it is used
  on every token classified String, Comment or RegEx, whatever language the token itself
  has: when the tokens behind the first one are given any other languages, and the bracket
  configuration of every other language is changed at will, the processed line is still
  the texts of the tokens in their order with the open and then the close bracket strings
  of the first token's language removed from the literal-like ones. When the language of
  the first token has no bracket configuration, the processed line is the line content,
  whatever the languages of the later tokens and their bracket sets.
\<close>

theorem bracket_set_of_first_token:
  "(langs 0 = getLanguageId tokens 0 \<and> svc' (getLanguageId tokens 0) = svc (getLanguageId tokens 0)
      \<longrightarrow> getProcessedLineForTokens svc' (tokens\<lparr>getLanguageId := langs\<rparr>) =
            (case svc (getLanguageId tokens 0) of
               None \<Rightarrow> Some (getLineContent tokens)
             | Some bs \<Rightarrow>
                 Some (concat (map (\<lambda>i.
                   if getStandardTokenType tokens i \<in> {String, Comment, RegEx}
                   then fold removeOccurrences
                          (concat (map open (brackets bs)) @ concat (map close (brackets bs)))
                          (getTokenText tokens i)
                   else getTokenText tokens i) [0..<getCount tokens])))) \<and>
   (langs 0 = getLanguageId tokens 0 \<and> svc' (getLanguageId tokens 0) = svc (getLanguageId tokens 0)
      \<longrightarrow> getProcessedLineForTokens svc' (tokens\<lparr>getLanguageId := langs\<rparr>) =
            getProcessedLineForTokens svc tokens) \<and>
   (svc (getLanguageId tokens 0) = None
      \<longrightarrow> getProcessedLineForTokens svc tokens = Some (getLineContent tokens))"
  by (simp add: getProcessedLineForTokens_def forEachToken_concat isTokenTypeToProcess_set
        split: option.splits cong: if_cong)

theorem bracket_set_of_first_token_witness:
  "exampleService ''txt'' = None \<and>
   getProcessedLineForTokens exampleService
     (tokensOf [(''txt'', Other, ''a ''), (''ts'', String, ''#(#'')]) = Some ''a #(#'' \<and>
   getProcessedLineForTokens exampleService
     ((tokensOf [(''ts'', Other, ''a(''), (''ts'', String, ''#(#''), (''ts'', Comment, ''// }'')])
        \<lparr>getLanguageId := (\<lambda>i. if i = 0 then ''ts'' else ''txt'')\<rparr>) = Some ''a(##// ''"
proof -
  let ?mixed = "tokensOf [(''txt'', Other, ''a ''), (''ts'', String, ''#(#'')]"
  let ?ts = "tokensOf [(''ts'', Other, ''a(''), (''ts'', String, ''#(#''), (''ts'', Comment, ''// }'')]"
  let ?langs = "\<lambda>i::nat. if i = 0 then ''ts'' else ''txt''"
  have l: "?langs 0 = getLanguageId ?ts 0"
    by (simp add: tokensOf_def)
  have c: "exampleService (getLanguageId ?ts 0) = Some exampleBrackets"
    by (simp add: exampleService_def tokensOf_def)
  have n: "exampleService (getLanguageId ?mixed 0) = None"
    by (simp add: exampleService_def tokensOf_def)
  from bracket_set_of_first_token [of ?langs ?mixed exampleService exampleService] n
  have "getProcessedLineForTokens exampleService ?mixed = Some (getLineContent ?mixed)"
    by blast
  then have m: "getProcessedLineForTokens exampleService ?mixed = Some ''a #(#''"
    by (simp add: tokensOf_def)
  from bracket_set_of_first_token [of ?langs ?ts exampleService exampleService] l
  have "getProcessedLineForTokens exampleService (?ts\<lparr>getLanguageId := ?langs\<rparr>) =
          (case exampleService (getLanguageId ?ts 0) of
             None \<Rightarrow> Some (getLineContent ?ts)
           | Some bs \<Rightarrow>
               Some (concat (map (\<lambda>i.
                 if getStandardTokenType ?ts i \<in> {String, Comment, RegEx}
                 then fold removeOccurrences
                        (concat (map open (brackets bs)) @ concat (map close (brackets bs)))
                        (getTokenText ?ts i)
                 else getTokenText ?ts i) [0..<getCount ?ts])))"
    by blast
  then have "getProcessedLineForTokens exampleService (?ts\<lparr>getLanguageId := ?langs\<rparr>) =
               Some ''a(##// ''"
    unfolding c by (simp add: tokensOf_def exampleBrackets_def upt_rec)
  with m show ?thesis
    by (simp add: exampleService_def)
qed

text \<open>
  C7. \<open>getProcessedLine\<close> sanitizes the tokens of the line. Without a replacement indentation
  it returns the sanitized line; with one it returns the replacement followed by the
  sanitized line without as many leading characters as the leading whitespace of the
  sanitized line is long.
\<close>

theorem getProcessedLine_replaces_indentation:
  "\<exists>sanitized.
     getProcessedLineForTokens svc (model lineNumber) = Some sanitized \<and>
     getProcessedLine imported svc model lineNumber None = Some sanitized \<and>
     (\<forall>indentation.
        getProcessedLine imported svc model lineNumber (Some indentation) =
          Some (indentation @ drop (length (getLeadingWhitespace imported sanitized)) sanitized))"
proof -
  obtain sanitized where "getProcessedLineForTokens svc (model lineNumber) = Some sanitized"
    using getProcessedLineForTokens_total by blast
  then show ?thesis
    by (simp add: getProcessedLine_def adjustIndentation_def)
qed

theorem getProcessedLine_replaces_indentation_witness:
  "getLineContent (exampleLines 3) = ''(  foo()'' \<and>
   getProcessedLineForTokens exampleService (exampleLines 3) = Some ''  foo()'' \<and>
   getProcessedLine exampleImports exampleService exampleLines 3 None = Some ''  foo()'' \<and>
   getProcessedLine exampleImports exampleService exampleLines 3 (Some [CHR 0x09, CHR 0x09]) =
     Some ([CHR 0x09, CHR 0x09] @ ''foo()'')"
proof -
  have s: "getProcessedLineForTokens exampleService (exampleLines 3) = Some ''  foo()''"
    by (simp add: getProcessedLineForTokens_Some [of _ _ exampleBrackets] exampleService_def
          exampleLines_def tokensOf_def exampleBrackets_def isTokenTypeToProcess_def upt_rec)
  have c: "getLineContent (exampleLines 3) = ''(  foo()''"
    by (simp add: exampleLines_def tokensOf_def)
  from getProcessedLine_replaces_indentation [of exampleService exampleLines 3 exampleImports] s c show ?thesis
    by (auto simp: exampleImports_def leadingSpacesAndTabs_def)
qed

text \<open>
  C8. Each of \<open>shouldIncrease\<close>, \<open>shouldDecrease\<close>, \<open>shouldIgnore\<close> and \<open>shouldIndentNextLine\<close>
  returns what the rule evaluator's predicate of the same name answers on
  \<open>getProcessedLine(lineNumber, newIndentation)\<close>.
\<close>

theorem facade_delegates_to_rules:
  "\<exists>processedLine.
     getProcessedLine imported svc model lineNumber newIndentation = Some processedLine \<and>
     shouldIncrease imported svc model rules lineNumber newIndentation =
       Some (rulesShouldIncrease rules processedLine) \<and>
     shouldDecrease imported svc model rules lineNumber newIndentation =
       Some (rulesShouldDecrease rules processedLine) \<and>
     shouldIgnore imported svc model rules lineNumber newIndentation =
       Some (rulesShouldIgnore rules processedLine) \<and>
     shouldIndentNextLine imported svc model rules lineNumber newIndentation =
       Some (rulesShouldIndentNextLine rules processedLine)"
proof -
  obtain sanitized where "getProcessedLineForTokens svc (model lineNumber) = Some sanitized"
    using getProcessedLineForTokens_total by blast
  then obtain processedLine where
    "getProcessedLine imported svc model lineNumber newIndentation = Some processedLine"
    by (cases newIndentation) (simp_all add: getProcessedLine_def)
  then show ?thesis
    by (simp add: shouldIncrease_def shouldDecrease_def shouldIgnore_def shouldIndentNextLine_def)
qed

theorem facade_delegates_to_rules_witness:
  "getProcessedLine exampleImports exampleService exampleLines 4 None = Some ''x = #'' \<and>
   shouldIncrease exampleImports exampleService exampleLines exampleRules 4 None = Some False \<and>
   shouldDecrease exampleImports exampleService exampleLines exampleRules 4 None = Some False \<and>
   shouldIgnore exampleImports exampleService exampleLines exampleRules 4 None = Some False \<and>
   shouldIndentNextLine exampleImports exampleService exampleLines exampleRules 4 None = Some False \<and>
   rulesShouldIncrease exampleRules (getLineContent (exampleLines 4))"
proof -
  have s: "getProcessedLineForTokens exampleService (exampleLines 4) = Some ''x = #''"
    by (simp add: getProcessedLineForTokens_Some [of _ _ exampleBrackets] exampleService_def
          exampleLines_def tokensOf_def exampleBrackets_def isTokenTypeToProcess_def upt_rec)
  then have p: "getProcessedLine exampleImports exampleService exampleLines 4 None = Some ''x = #''"
    by (simp add: getProcessedLine_def)
  have r: "rulesShouldIncrease exampleRules (getLineContent (exampleLines 4))"
    by (simp add: exampleRules_def exampleLines_def tokensOf_def)
  from facade_delegates_to_rules [of exampleImports exampleService exampleLines 4 None exampleRules] p r show ?thesis
    by (auto simp: exampleRules_def)
qed

text \<open>
  C2. The previous-line text is empty unless the start line is not line 1, the scope at the
  start of the range starts at offset zero, and the scope at the last column of the
  previous line has the language of that scope; when the three hold it is the processed
  line of the previous line's tokens sliced to the span of the previous line's scope.
\<close>

theorem previousLineText_conditions:
  "let s1 = forceTokenization model s (startLineNumber rng);
       startScope = createScopedLineTokens imported (getLineTokens model s1 (startLineNumber rng))
                      (startColumn rng - 1);
       previousLineNumber = startLineNumber rng - 1;
       s2 = forceTokenization model s1 previousLineNumber;
       previousTokens = getLineTokens model s2 previousLineNumber;
       previousScope = createScopedLineTokens imported previousTokens
                         (getLineMaxColumn model previousLineNumber - 1)
   in \<exists>ctx. fst (getProcessedContextAroundRange imported svc model s rng) = Some ctx \<and>
        (if startLineNumber rng \<noteq> 1 \<and> doesScopeStartAtOffsetZero startScope \<and>
            languageId previousScope = languageId startScope
         then Some (previousLineText ctx) =
                getProcessedLineForTokens svc
                  (sliceAndInflate imported previousTokens (firstCharOffset previousScope)
                     (firstCharOffset previousScope
                        + int (length (scopedLineContent previousScope))) 0)
         else previousLineText ctx = [])"
proof -
  obtain ctx where
    "fst (getProcessedContextAroundRange imported svc model s rng) = Some ctx"
    "fst (getProcessedPreviousLine imported svc model (forceTokenization model s (startLineNumber rng))
            rng (createScopedLineTokens imported
                   (getLineTokens model (forceTokenization model s (startLineNumber rng))
                      (startLineNumber rng)) (startColumn rng - 1))) = Some (previousLineText ctx)"
    using getProcessedContextAroundRange_fields [OF refl refl, of imported svc model s rng] by blast
  then show ?thesis
    unfolding Let_def getProcessedPreviousLine_result
    by (intro exI [of _ ctx]) (auto split: if_splits)
qed

theorem previousLineText_conditions_witness:
  "map_option previousLineText
     (fst (getProcessedContextAroundRange exampleImports exampleService exampleModel []
        \<lparr>startLineNumber = 2, startColumn = 1, endLineNumber = 2, endColumn = 1\<rparr>)) =
   Some ''// see x'' \<and>
   getLineContent (exampleLines 1) = ''// see (x)''"
proof -
  let ?rng = "\<lparr>startLineNumber = 2, startColumn = 1, endLineNumber = 2, endColumn = 1\<rparr>"
  have slice: "sliceOneToken (exampleLines 1) 0 10 0 = tokensOf [(''ts'', Comment, ''// see (x)'')]"
    by (simp add: sliceOneToken_def exampleLines_def tokensOf_def)
  have sanitized: "getProcessedLineForTokens exampleService (tokensOf [(''ts'', Comment, ''// see (x)'')])
      = Some ''// see x''"
    by (simp add: getProcessedLineForTokens_Some [of _ _ exampleBrackets] exampleService_def
          tokensOf_def exampleBrackets_def isTokenTypeToProcess_def upt_rec)
  from previousLineText_conditions [of exampleModel "[]" ?rng exampleImports exampleService]
  obtain ctx where
    "fst (getProcessedContextAroundRange exampleImports exampleService exampleModel [] ?rng) = Some ctx"
    "Some (previousLineText ctx) =
       getProcessedLineForTokens exampleService (sliceOneToken (exampleLines 1) 0 10 0)"
    by (auto simp: Let_def exampleModel_def exampleImports_def scopeWholeLine_def
          exampleLines_def tokensOf_def)
  with slice sanitized show ?thesis
    by (simp add: exampleLines_def tokensOf_def)
qed

text \<open>
  C3. The text after the range is the processed line of a slice that ends where the scope of
  the start position ends: for a collapsed range the slice of the start line's tokens from
  the start column, otherwise the slice of the end line's tokens from the end column.
\<close>

theorem afterRangeText_collapsed_or_selection:
  "let s1 = forceTokenization model s (startLineNumber rng);
       scope = createScopedLineTokens imported (getLineTokens model s1 (startLineNumber rng))
                 (startColumn rng - 1);
       scopeEnd = firstCharOffset scope + int (length (scopedLineContent scope))
   in \<exists>ctx. fst (getProcessedContextAroundRange imported svc model s rng) = Some ctx \<and>
        Some (afterRangeText ctx) =
          (if isEmpty rng
           then getProcessedLineForTokens svc
                  (sliceAndInflate imported (getLineTokens model s1 (startLineNumber rng))
                     (startColumn rng - 1) scopeEnd 0)
           else getProcessedLineForTokens svc
                  (sliceAndInflate imported (getLineTokens model s1 (endLineNumber rng))
                     (endColumn rng - 1) scopeEnd 0))"
proof -
  obtain ctx where
    "fst (getProcessedContextAroundRange imported svc model s rng) = Some ctx"
    "getProcessedTextAfterRange imported svc model (forceTokenization model s (startLineNumber rng))
            rng (createScopedLineTokens imported
                   (getLineTokens model (forceTokenization model s (startLineNumber rng))
                      (startLineNumber rng)) (startColumn rng - 1)) = Some (afterRangeText ctx)"
    using getProcessedContextAroundRange_fields [OF refl refl, of imported svc model s rng] by blast
  then show ?thesis
    unfolding Let_def getProcessedTextAfterRange_slice
    by (intro exI [of _ ctx]) (auto split: if_splits)
qed

theorem afterRangeText_collapsed_or_selection_witness:
  "map_option afterRangeText
     (fst (getProcessedContextAroundRange exampleImports exampleService exampleModel []
        \<lparr>startLineNumber = 1, startColumn = 4, endLineNumber = 2, endColumn = 6\<rparr>)) =
   Some ''0] b'' \<and>
   map_option afterRangeText
     (fst (getProcessedContextAroundRange exampleImports exampleService exampleModel []
        \<lparr>startLineNumber = 1, startColumn = 4, endLineNumber = 1, endColumn = 4\<rparr>)) =
   Some ''see x''"
proof -
  let ?sel = "\<lparr>startLineNumber = 1, startColumn = 4, endLineNumber = 2, endColumn = 6\<rparr>"
  let ?caret = "\<lparr>startLineNumber = 1, startColumn = 4, endLineNumber = 1, endColumn = 4\<rparr>"
  have slice2: "sliceOneToken (exampleLines 2) 5 10 0 = tokensOf [(''ts'', Comment, ''0] {b'')]"
    by (simp add: sliceOneToken_def exampleLines_def tokensOf_def)
  have slice1: "sliceOneToken (exampleLines 1) 3 10 0 = tokensOf [(''ts'', Comment, ''see (x)'')]"
    by (simp add: sliceOneToken_def exampleLines_def tokensOf_def)
  have sanitized2: "getProcessedLineForTokens exampleService (tokensOf [(''ts'', Comment, ''0] {b'')])
      = Some ''0] b''"
    by (simp add: getProcessedLineForTokens_Some [of _ _ exampleBrackets] exampleService_def
          tokensOf_def exampleBrackets_def isTokenTypeToProcess_def upt_rec)
  have sanitized1: "getProcessedLineForTokens exampleService (tokensOf [(''ts'', Comment, ''see (x)'')])
      = Some ''see x''"
    by (simp add: getProcessedLineForTokens_Some [of _ _ exampleBrackets] exampleService_def
          tokensOf_def exampleBrackets_def isTokenTypeToProcess_def upt_rec)
  from afterRangeText_collapsed_or_selection [of exampleModel "[]" ?sel exampleImports exampleService]
  obtain ctx where
    "fst (getProcessedContextAroundRange exampleImports exampleService exampleModel [] ?sel) = Some ctx"
    "Some (afterRangeText ctx) =
       getProcessedLineForTokens exampleService (sliceOneToken (exampleLines 2) 5 10 0)"
    by (auto simp: Let_def isEmpty_def exampleModel_def exampleImports_def scopeWholeLine_def
          exampleLines_def tokensOf_def)
  moreover from afterRangeText_collapsed_or_selection [of exampleModel "[]" ?caret exampleImports exampleService]
  obtain ctx' where
    "fst (getProcessedContextAroundRange exampleImports exampleService exampleModel [] ?caret) = Some ctx'"
    "Some (afterRangeText ctx') =
       getProcessedLineForTokens exampleService (sliceOneToken (exampleLines 1) 3 10 0)"
    by (auto simp: Let_def isEmpty_def exampleModel_def exampleImports_def scopeWholeLine_def
          exampleLines_def tokensOf_def)
  ultimately show ?thesis
    using slice1 slice2 sanitized1 sanitized2 by simp
qed

end
